theory Spec2Isabelle
  imports Main
begin

section \<open>Go values shared by the handlers of mgmt/rest/plugin.go\<close>

text \<open>
  A Go \<open>error\<close> value: \<open>io.EOF\<close>, or any other error with its message
  (\<open>errors.New(msg)\<close>). The handlers compare errors with \<open>nil\<close> and with
  \<open>io.EOF\<close> only, so no more structure is needed. A possibly-nil error is a
  \<open>go_error option\<close>.
\<close>

datatype go_error = EOF | Error string

text \<open>
  \<open>strconv.NumError\<close> carries one of two causes, \<open>ErrSyntax\<close> and \<open>ErrRange\<close>.
\<close>

datatype num_error = ErrSyntax | ErrRange

text \<open>The struct \<open>plugin\<close> (plugin.go, lines 28 to 44) with its three getters.\<close>

record plugin =
  name :: string
  version :: int
  pluginType :: string

definition Name :: "plugin \<Rightarrow> string" where
  "Name p = name p"

definition Version :: "plugin \<Rightarrow> int" where
  "Version p = version p"

definition TypeName :: "plugin \<Rightarrow> string" where
  "TypeName p = pluginType p"

text \<open>
  What the handlers read from a \<open>core.CatalogedPlugin\<close>: the results of its methods
  \<open>Name()\<close>, \<open>Version()\<close>, \<open>TypeName()\<close>, \<open>Status()\<close> and
  \<open>LoadedTimestamp().Unix()\<close>.
\<close>

record cataloged_plugin =
  cp_Name :: string
  cp_Version :: int
  cp_TypeName :: string
  cp_Status :: string
  cp_LoadedTimestamp :: int

text \<open>\<open>rbody.LoadedPlugin\<close>, as \<open>catalogedPluginToLoaded\<close> fills it.\<close>

record loaded_plugin =
  lp_Name :: string
  lp_Version :: int
  lp_Type :: string
  lp_Status :: string
  lp_LoadedTimestamp :: int

definition catalogedPluginToLoaded :: "cataloged_plugin \<Rightarrow> loaded_plugin" where
  "catalogedPluginToLoaded c =
     \<lparr>lp_Name = cp_Name c, lp_Version = cp_Version c, lp_Type = cp_TypeName c,
      lp_Status = cp_Status c, lp_LoadedTimestamp = cp_LoadedTimestamp c\<rparr>"

text \<open>
  The values stored in the field map \<open>f\<close> of \<open>unloadPlugin\<close>
  (\<open>map[string]interface{}\<close>): strings and an \<open>int64\<close>.
\<close>

datatype field_value = FString string | FInt int

text \<open>
  A \<open>perror.PulseError\<close>: the wrapped error and the fields set with \<open>SetFields\<close>.
  \<open>perror.New\<close> and \<open>SetFields\<close> are declared outside the two source files; they
  are taken as the constructor and the field update they are used as.
\<close>

record pulse_error =
  pe_err :: go_error
  pe_fields :: "(string \<times> field_value) list"

definition perror_New :: "go_error \<Rightarrow> pulse_error" where
  "perror_New e = \<lparr>pe_err = e, pe_fields = []\<rparr>"

definition SetFields :: "pulse_error \<Rightarrow> (string \<times> field_value) list \<Rightarrow> pulse_error" where
  "SetFields pe f = pe\<lparr>pe_fields := f\<rparr>"

text \<open>
  The bodies handed to \<open>respond\<close>: \<open>rbody.FromError(err)\<close>,
  \<open>rbody.FromPulseError(pe)\<close>, \<open>&rbody.PluginUnloaded{Name, Version, Type}\<close> and
  \<open>&rbody.PluginsLoaded{LoadedPlugins}\<close>. The constructors of \<open>rbody\<close> are kept
  uninterpreted.
\<close>

datatype body =
    FromError go_error
  | FromPulseError pulse_error
  | PluginUnloaded string int string
  | PluginsLoaded "loaded_plugin list"

text \<open>
  \<open>respond(code, body, w)\<close> is the only way the handlers write to the
  \<open>http.ResponseWriter\<close>. The writer is modelled by the list of the calls of
  \<open>respond\<close> made on it, oldest first: a handler that never calls \<open>respond\<close>
  leaves it empty.
\<close>

type_synonym response = "int \<times> body"

definition respond :: "int \<Rightarrow> body \<Rightarrow> response list \<Rightarrow> response list" where
  "respond code b w = w @ [(code, b)]"

text \<open>
  \<open>httprouter.Params\<close> is a slice of key/value pairs; \<open>ByName\<close> returns the value
  of the first pair with the key, and the empty string when there is none.
\<close>

type_synonym params = "(string \<times> string) list"

fun ByName :: "params \<Rightarrow> string \<Rightarrow> string" where
  "ByName [] k = ''''"
| "ByName ((k', v) # ps) k = (if k' = k then v else ByName ps k)"

section \<open>strconv.ParseInt(s, 10, 0)\<close>

text \<open>
  \<open>unloadPlugin\<close> parses the version with base 10 and bit size 0, which stands for
  \<open>strconv.IntSize\<close>, 64 on a 64-bit platform. Unsigned 64-bit arithmetic is written on
  \<open>int\<close> with the
  wrap-around spelled out.
\<close>

definition IntSize :: nat where
  "IntSize = 64"

definition maxUint64 :: int where
  "maxUint64 = 2 ^ 64 - 1"

definition isDigit :: "char \<Rightarrow> bool" where
  "isDigit c = (48 \<le> (of_char c :: int) \<and> (of_char c :: int) \<le> 57)"

text \<open>
  The loop of \<open>strconv.ParseUint\<close> for base 10: \<open>maxVal\<close> is
  \<open>1<<bitSize - 1\<close>, \<open>n\<close> the value read so far. A byte that is not a decimal
  digit is a syntax error (a letter is a digit of value at least 10, which base 10 refuses; an
  underscore is accepted for base 0 only). The loop returns at the first overflow without
  looking at the bytes that follow.
\<close>

fun ParseUint_loop :: "int \<Rightarrow> int \<Rightarrow> string \<Rightarrow> int \<times> num_error option" where
  "ParseUint_loop maxVal n [] = (n, None)"
| "ParseUint_loop maxVal n (c # cs) =
     (if \<not> isDigit c then (0, Some ErrSyntax)
      else if n \<ge> maxUint64 div 10 + 1 then (maxVal, Some ErrRange)
      else
        (let n10 = n * 10;
             n1 = (n10 + (of_char c - 48)) mod 2 ^ 64
         in if n1 < n10 \<or> n1 > maxVal then (maxVal, Some ErrRange)
            else ParseUint_loop maxVal n1 cs))"

definition ParseUint :: "string \<Rightarrow> int \<times> num_error option" where
  "ParseUint s =
     (if s = [] then (0, Some ErrSyntax)
      else ParseUint_loop (2 ^ IntSize - 1) 0 s)"

definition ParseInt :: "string \<Rightarrow> int \<times> num_error option" where
  "ParseInt s =
     (if s = [] then (0, Some ErrSyntax)
      else
        (let neg = (hd s = CHR ''-'');
             s1 = (if hd s = CHR ''+'' \<or> hd s = CHR ''-'' then tl s else s);
             (un, err) = ParseUint s1
         in if err = Some ErrSyntax then (0, err)
            else
              (let cutoff = 2 ^ (IntSize - 1)
               in if \<not> neg \<and> un \<ge> cutoff then (cutoff - 1, Some ErrRange)
                  else if neg \<and> un > cutoff then (- cutoff, Some ErrRange)
                  else (if neg then - un else un, None))))"

text \<open>
  The number that a string of decimal digits denotes, read from the left after the value
  \<open>n\<close>. It is not part of the program: it says below which strings \<open>ParseInt\<close>
  accepts and which value it returns.
\<close>

definition decimal :: "int \<Rightarrow> string \<Rightarrow> int" where
  "decimal n ds = foldl (\<lambda>m c. m * 10 + (of_char c - 48)) n ds"

section \<open>The Metric Manager as the handlers use it\<close>

text \<open>
  The handlers call \<open>s.mm.Unload\<close>, \<open>s.mm.Load\<close> and
  \<open>s.mm.GetAutodiscoverPaths\<close>. The manager lives outside the two files: it is a
  parameter, a record of functions on a state \<open>'w\<close> of the manager and of the file
  system. \<open>Unload\<close> and \<open>Load\<close> return a Go pair (value, error), either of
  which may be nil.
\<close>

record 'w manager =
  Unload :: "plugin \<Rightarrow> 'w \<Rightarrow> (cataloged_plugin option \<times> pulse_error option) \<times> 'w"
  Load :: "string \<Rightarrow> 'w \<Rightarrow> (cataloged_plugin option \<times> go_error option) \<times> 'w"
  GetAutodiscoverPaths :: "'w \<Rightarrow> string list"

text \<open>The calls of the manager a handler made, oldest first.\<close>

datatype mm_call = CallUnload plugin | CallLoad string

text \<open>
  What a handler leaves behind: the calls of \<open>respond\<close>, the calls of the manager,
  the state, and whether it panicked on a nil interface value.
\<close>

record 'w outcome =
  responses :: "response list"
  calls :: "mm_call list"
  world :: 'w
  panicked :: bool

section \<open>unloadPlugin\<close>

definition unloadPlugin :: "'w manager \<Rightarrow> params \<Rightarrow> 'w \<Rightarrow> 'w outcome" where
  "unloadPlugin mm p w =
     (let plName = ByName p ''name'';
          plType = ByName p ''type'';
          (plVersion, iErr) = ParseInt (ByName p ''version'');
          f = [(''plugin-name'', FString plName),
               (''plugin-version'', FInt plVersion),
               (''plugin-type'', FString plType)]
      in if iErr \<noteq> None then
           \<lparr>responses = respond 400
              (FromPulseError (SetFields (perror_New (Error ''invalid version'')) f)) [],
            calls = [], world = w, panicked = False\<rparr>
         else if plName = '''' then
           \<lparr>responses = respond 400
              (FromPulseError (SetFields (perror_New (Error ''missing plugin name'')) f)) [],
            calls = [], world = w, panicked = False\<rparr>
         else if plType = '''' then
           \<lparr>responses = respond 400
              (FromPulseError (SetFields (perror_New (Error ''missing plugin type'')) f)) [],
            calls = [], world = w, panicked = False\<rparr>
         else
           (let pl = \<lparr>name = plName, version = plVersion, pluginType = plType\<rparr>;
                ((up, pe), w') = Unload mm pl w
            in case pe of
                 Some e \<Rightarrow>
                   \<lparr>responses = respond 500 (FromPulseError (SetFields e f)) [],
                    calls = [CallUnload pl], world = w', panicked = False\<rparr>
               | None \<Rightarrow>
                   (case up of
                      None \<Rightarrow>
                        \<lparr>responses = [], calls = [CallUnload pl], world = w',
                         panicked = True\<rparr>
                    | Some u \<Rightarrow>
                        \<lparr>responses = respond 200
                           (PluginUnloaded (cp_Name u) (cp_Version u) (cp_TypeName u)) [],
                         calls = [CallUnload pl], world = w', panicked = False\<rparr>)))"

section \<open>loadPlugin and writePlugin\<close>

text \<open>
  A part of a multipart body: \<open>FileName()\<close>, the result of \<open>ioutil.ReadAll(p)\<close>, and
  the result of \<open>gzip.NewReader(p)\<close> which, when it is no error, holds the result of
  \<open>ioutil.ReadAll(g)\<close>.
\<close>

record part =
  FileName :: string
  ReadAll :: "go_error + string"
  gzip_NewReader :: "go_error + (go_error + string)"

text \<open>
  The operating system and the Go library, as \<open>loadPlugin\<close> and \<open>writePlugin\<close>
  call them. A file is named by the result of \<open>f.Name()\<close>. Each function stands for the
  call of the same name; those with an effect pass the state \<open>'w\<close> on.
  \<^item> \<open>ParseMediaType\<close>: \<open>mime.ParseMediaType\<close>, returning the media type, the
    parameter map and the error;
  \<^item> \<open>NewReader\<close>: \<open>multipart.NewReader(body, boundary)\<close>, given as the results of the
    successive calls of \<open>NextPart\<close> on it; past the last one \<open>NextPart\<close> returns
    \<open>io.EOF\<close> (the body of a request is finite);
  \<^item> \<open>Create\<close>, \<open>TempFile\<close>, \<open>Write\<close>, \<open>Chmod\<close>, \<open>Close\<close>:
    \<open>os.Create\<close>, \<open>ioutil.TempFile\<close> and the methods of \<open>*os.File\<close>;
  \<^item> \<open>Join\<close>: \<open>path.Join\<close> of two elements.
\<close>

record 'w system =
  ParseMediaType :: "string \<Rightarrow> string \<times> (string \<times> string) list \<times> go_error option"
  NewReader :: "string \<Rightarrow> string \<Rightarrow> (go_error + part) list"
  Create :: "string \<Rightarrow> 'w \<Rightarrow> (go_error + string) \<times> 'w"
  TempFile :: "string \<Rightarrow> string \<Rightarrow> 'w \<Rightarrow> (go_error + string) \<times> 'w"
  Write :: "string \<Rightarrow> string \<Rightarrow> 'w \<Rightarrow> go_error option \<times> 'w"
  Chmod :: "string \<Rightarrow> int \<Rightarrow> 'w \<Rightarrow> go_error option \<times> 'w"
  Close :: "string \<Rightarrow> 'w \<Rightarrow> 'w"
  Join :: "string \<Rightarrow> string \<Rightarrow> string"

text \<open>
  The request: its header (canonical key to values; \<open>Header.Get\<close> returns the first value
  of the key, or the empty string) and its body.
\<close>

record request =
  Header :: "(string \<times> string list) list"
  Body :: string

definition Header_Get :: "(string \<times> string list) list \<Rightarrow> string \<Rightarrow> string" where
  "Header_Get h k = (case map_of h k of Some (v # _) \<Rightarrow> v | _ \<Rightarrow> [])"

text \<open>
  \<open>strings.HasPrefix(s, prefix)\<close> is
  \<open>len(s) >= len(prefix) && s[0:len(prefix)] == prefix\<close>.
\<close>

definition HasPrefix :: "string \<Rightarrow> string \<Rightarrow> bool" where
  "HasPrefix s pre = (length s \<ge> length pre \<and> take (length pre) s = pre)"

text \<open>A Go map of strings read at a key: the empty string when the key is missing.\<close>

definition index_map :: "(string \<times> string) list \<Rightarrow> string \<Rightarrow> string" where
  "index_map m k = (case map_of m k of Some v \<Rightarrow> v | None \<Rightarrow> [])"

text \<open>
  \<open>writePlugin\<close> (lines 102 to 130) returns the name of the file written and a nil error,
  or the empty name and the error of the first call that failed. The mode \<open>0700\<close> is 448.
\<close>

definition writePlugin ::
  "'w system \<Rightarrow> string list \<Rightarrow> string \<Rightarrow> string \<Rightarrow> 'w \<Rightarrow> (string \<times> go_error option) \<times> 'w" where
  "writePlugin os autoPaths filename b w =
     (let (r, w1) =
            (if length autoPaths > 0 then Create os (Join os (hd autoPaths) filename) w
             else TempFile os [] filename w)
      in case r of
           Inl err \<Rightarrow> (([], Some err), w1)
         | Inr f \<Rightarrow>
             (let (werr, w2) = Write os f b w1
              in case werr of
                   Some err \<Rightarrow> (([], Some err), w2)
                 | None \<Rightarrow>
                     (let (cerr, w3) = Chmod os f 448 w2
                      in case cerr of
                           Some err \<Rightarrow> (([], Some err), w3)
                         | None \<Rightarrow> ((f, None), Close os f w3))))"

text \<open>
  The bytes of a part, as the two branches on the header \<open>Plugin-Compression\<close> read them
  (lines 67 to 86): an error of \<open>gzip.NewReader\<close> or of \<open>ioutil.ReadAll\<close> ends the
  request with status 500.
\<close>

definition readPart :: "bool \<Rightarrow> part \<Rightarrow> go_error + string" where
  "readPart gz p =
     (if gz then (case gzip_NewReader p of Inl err \<Rightarrow> Inl err | Inr g \<Rightarrow> g)
      else ReadAll p)"

text \<open>
  The \<open>for\<close> loop of \<open>loadPlugin\<close> (lines 56 to 98), by recursion on the results of
  \<open>NextPart\<close> still to come; \<open>lp\<close> is \<open>lp.LoadedPlugins\<close> and \<open>cs\<close> the calls
  of the manager so far.

  In both branches the statement \<open>fname, err = writePlugin(...)\<close> assigns the \<open>err\<close>
  declared inside the branch (by \<open>g, err := ...\<close> and \<open>b, err := ...\<close>), not the
  \<open>err\<close> of \<open>p, err := mr.NextPart()\<close>, which the test of line 87 reads and which is
  nil there. So the error of \<open>writePlugin\<close> is dropped, and \<open>Load\<close> is called with the
  name \<open>writePlugin\<close> returned, the empty one after a failure.
\<close>

fun loadParts ::
  "'w system \<Rightarrow> 'w manager \<Rightarrow> bool \<Rightarrow> (go_error + part) list \<Rightarrow> loaded_plugin list \<Rightarrow>
   mm_call list \<Rightarrow> 'w \<Rightarrow> 'w outcome" where
  "loadParts os mm gz [] lp cs w =
     \<lparr>responses = respond 201 (PluginsLoaded lp) [], calls = cs, world = w, panicked = False\<rparr>"
| "loadParts os mm gz (Inl err # rest) lp cs w =
     (if err = EOF then
        \<lparr>responses = respond 201 (PluginsLoaded lp) [], calls = cs, world = w,
         panicked = False\<rparr>
      else
        \<lparr>responses = respond 500 (FromError err) [], calls = cs, world = w,
         panicked = False\<rparr>)"
| "loadParts os mm gz (Inr p # rest) lp cs w =
     (case readPart gz p of
        Inl err \<Rightarrow>
          \<lparr>responses = respond 500 (FromError err) [], calls = cs, world = w,
           panicked = False\<rparr>
      | Inr b \<Rightarrow>
          (let ((fname, werr), w1) = writePlugin os (GetAutodiscoverPaths mm w) (FileName p) b w;
               ((pl, err), w2) = Load mm fname w1
           in case err of
                Some e \<Rightarrow>
                  \<lparr>responses = respond 500 (FromError e) [], calls = cs @ [CallLoad fname],
                   world = w2, panicked = False\<rparr>
              | None \<Rightarrow>
                  (case pl of
                     None \<Rightarrow>
                       \<lparr>responses = [], calls = cs @ [CallLoad fname], world = w2,
                        panicked = True\<rparr>
                   | Some c \<Rightarrow>
                       loadParts os mm gz rest (lp @ [catalogedPluginToLoaded c])
                         (cs @ [CallLoad fname]) w2)))"

definition loadPlugin :: "'w system \<Rightarrow> 'w manager \<Rightarrow> request \<Rightarrow> 'w \<Rightarrow> 'w outcome" where
  "loadPlugin os mm r w =
     (let (mediaType, params, err) = ParseMediaType os (Header_Get (Header r) ''Content-Type'')
      in case err of
           Some e \<Rightarrow>
             \<lparr>responses = respond 500 (FromError e) [], calls = [], world = w,
              panicked = False\<rparr>
         | None \<Rightarrow>
             if HasPrefix mediaType ''multipart/'' then
               loadParts os mm (Header_Get (Header r) ''Plugin-Compression'' = ''gzip'')
                 (NewReader os (Body r) (index_map params ''boundary'')) [] [] w
             else \<lparr>responses = [], calls = [], world = w, panicked = False\<rparr>)"

section \<open>The scheduler: task options, registry and CreateTask\<close>

text \<open>
  Of the package \<open>scheduler\<close> the sources hold the test only (scheduler_test.go). The
  scheduler, its tasks and the task options that the test drives are modelled from the
  specification; each definition says which sentences it follows. The names are those the test
  uses where it names the thing (\<open>schedulerStopped\<close>, \<open>ErrSchedulerNotStarted\<close>,
  \<open>ErrMetricManagerNotSet\<close>, \<open>deadlineDuration\<close>, \<open>DefaultDeadlineDuration\<close>,
  \<open>TaskDeadlineDuration\<close>, \<open>NewSimpleSchedule\<close>, \<open>tasks.add\<close>).
\<close>

text \<open>
  Modelled from the spec: the error kinds of section 7 that the scheduler itself raises
  (\<open>SchedulerNotStarted\<close>, \<open>MetricManagerNotSet\<close>, \<open>TaskNotFound\<close>, the duplicate
  task ID on registry insert). Any other error (of the schedule, of the namespace check, of the
  Metric Manager, of the compiler) is carried by its message.
\<close>

datatype sched_error =
    ErrSchedulerNotStarted
  | ErrMetricManagerNotSet
  | ErrTaskNotFound
  | ErrDuplicateTaskID
  | ErrMessage string

text \<open>
  Modelled from the spec: the schedule of the test, \<open>schedule.NewSimpleSchedule(interval)\<close>,
  with the interval in nanoseconds (a \<open>time.Duration\<close>), and its self-validation: a
  non-positive interval is refused with the message "Interval must be greater than 0"
  (section 4.1, step 2).
\<close>

datatype schedule = SimpleSchedule int

fun Validate :: "schedule \<Rightarrow> sched_error option" where
  "Validate (SimpleSchedule interval) =
     (if interval \<le> 0 then Some (ErrMessage ''Interval must be greater than 0'') else None)"

text \<open>
  Modelled from the spec: the lifecycle of the scheduler, \<open>{Stopped, Running}\<close>
  (sections 4.1 and 9), and the states of a task (section 4.2).
\<close>

datatype scheduler_state = schedulerStopped | schedulerRunning

datatype task_state = taskStopped | taskRunning | taskEnded | taskDisabled

text \<open>
  Modelled from the spec: a task (section 3) has its identity, a unique numeric ID assigned at
  creation; its pipeline \<open>'p\<close>; its schedule; its deadline duration; its lifecycle state.
  The statistics of a task are left out: no operation below reads them.
\<close>

record 'p task =
  task_id :: nat
  workflow :: 'p
  task_schedule :: schedule
  deadlineDuration :: int
  task_state :: task_state

text \<open>
  Modelled from the spec: a task option is a command object, \<open>apply(task)\<close> returning the
  previous setting (section 9); the one option of the specification and of the test overrides
  the deadline duration. Applying it sets the deadline and returns the option that carries the
  prior value (sections 4.1, step 7, and 4.2).
\<close>

datatype task_option = TaskDeadlineDuration int

fun Option :: "task_option \<Rightarrow> 'p task \<Rightarrow> task_option \<times> 'p task" where
  "Option (TaskDeadlineDuration v) t =
     (TaskDeadlineDuration (deadlineDuration t), t\<lparr>deadlineDuration := v\<rparr>)"

text \<open>
  Modelled from the spec: the options of \<open>CreateTask\<close> are applied in declaration order,
  so that later options override earlier ones (section 4.1, step 7).
\<close>

fun applyOptions :: "task_option list \<Rightarrow> 'p task \<Rightarrow> 'p task" where
  "applyOptions [] t = t"
| "applyOptions (opt # opts) t = applyOptions opts (snd (Option opt t))"

text \<open>
  Modelled from the spec: what \<open>CreateTask\<close> asks of the Metric Manager (section 6):
  \<open>ValidateDeps\<close> for the metrics and plugins the workflow map \<open>'wf\<close> declares,
  returning the errors it found.
\<close>

record 'wf metric_manager =
  ValidateDeps :: "'wf \<Rightarrow> sched_error list"

text \<open>
  Modelled from the spec: what the specification leaves to other components or does not fix,
  taken as parameters: the value of the default deadline duration ("a fixed constant",
  section 4.2); the check of every namespace of the workflow map against the syntax rules,
  returning all the violations (step 3); the compiler of section 4.3, returning the negotiated
  pipeline or its failure (step 5).
\<close>

record ('wf, 'p) environment =
  DefaultDeadlineDuration :: int
  validateNamespaces :: "'wf \<Rightarrow> sched_error list"
  compile :: "'wf metric_manager \<Rightarrow> 'wf \<Rightarrow> sched_error + 'p"

text \<open>
  Modelled from the spec: the scheduler (sections 2 and 4.1) is an explicit value with its
  lifecycle state, the Metric Manager once installed, and the registry of its tasks keyed by ID.
  \<open>nextID\<close> is the source of the IDs, which are "assigned at creation, monotonic,
  collision-free" (section 3): a counter.
\<close>

record ('wf, 'p) scheduler =
  state :: scheduler_state
  metricManager :: "'wf metric_manager option"
  tasks :: "nat \<rightharpoonup> 'p task"
  nextID :: nat

definition New :: "('wf, 'p) scheduler" where
  "New = \<lparr>state = schedulerStopped, metricManager = None, tasks = Map.empty, nextID = 0\<rparr>"

text \<open>
  Modelled from the spec: \<open>SetMetricManager\<close> installs the manager; \<open>Start\<close> fails with
  \<open>MetricManagerNotSet\<close> if no manager is installed and else makes the state Running;
  \<open>Stop\<close> makes it Stopped (section 4.1).
\<close>

definition SetMetricManager ::
  "'wf metric_manager \<Rightarrow> ('wf, 'p) scheduler \<Rightarrow> ('wf, 'p) scheduler" where
  "SetMetricManager mm s = s\<lparr>metricManager := Some mm\<rparr>"

definition Start :: "('wf, 'p) scheduler \<Rightarrow> sched_error option \<times> ('wf, 'p) scheduler" where
  "Start s =
     (case metricManager s of
        None \<Rightarrow> (Some ErrMetricManagerNotSet, s)
      | Some mm \<Rightarrow> (None, s\<lparr>state := schedulerRunning\<rparr>))"

definition Stop :: "('wf, 'p) scheduler \<Rightarrow> ('wf, 'p) scheduler" where
  "Stop s = s\<lparr>state := schedulerStopped\<rparr>"

text \<open>
  Modelled from the spec: the insertion into the registry. Adding a task whose ID is already
  present is an error, not an overwrite (section 3, invariants; section 7, lifecycle errors):
  the registry comes back as it was.
\<close>

definition add :: "'p task \<Rightarrow> (nat \<rightharpoonup> 'p task) \<Rightarrow> sched_error option \<times> (nat \<rightharpoonup> 'p task)" where
  "add t ts =
     (if ts (task_id t) \<noteq> None then (Some ErrDuplicateTaskID, ts)
      else (None, ts(task_id t \<mapsto> t)))"

text \<open>
  Modelled from the spec: \<open>GetTasks\<close> is a snapshot of the registry; \<open>GetTask\<close> fails
  with \<open>TaskNotFound\<close> if the ID is absent (section 4.1).
\<close>

definition GetTasks :: "('wf, 'p) scheduler \<Rightarrow> (nat \<rightharpoonup> 'p task)" where
  "GetTasks s = tasks s"

definition GetTask :: "nat \<Rightarrow> ('wf, 'p) scheduler \<Rightarrow> 'p task option \<times> sched_error option" where
  "GetTask i s =
     (case tasks s i of
        None \<Rightarrow> (None, Some ErrTaskNotFound)
      | Some t \<Rightarrow> (Some t, None))"

text \<open>
  Modelled from the spec: the task that step 7 constructs, with a fresh ID, the compiled
  pipeline, the given schedule and the default deadline duration, the options applied to it in
  declaration order.
\<close>

definition newTask ::
  "('wf, 'p) environment \<Rightarrow> nat \<Rightarrow> schedule \<Rightarrow> 'p \<Rightarrow> task_option list \<Rightarrow> 'p task" where
  "newTask env i sch p opts =
     applyOptions opts
       \<lparr>task_id = i, workflow = p, task_schedule = sch,
        deadlineDuration = DefaultDeadlineDuration env, task_state = taskStopped\<rparr>"

text \<open>
  Modelled from the spec: \<open>CreateTask\<close>, steps 1 to 7 of section 4.1, returning the task
  (or nil), the error list and the scheduler after the call.
  \<^enum> Not Running: \<open>SchedulerNotStarted\<close>.
  \<^enum> The schedule fails its validation: its own error.
  \<^enum> and 4. The violations of the namespaces, then the errors \<open>ValidateDeps\<close> reports.
  \<^enum> With no error so far, the workflow map is compiled; a failure joins the list.
  \<^enum> A list that is not empty is returned with a nil task; nothing is registered.
  \<^enum> Else the task is constructed with the next ID and registered; with \<open>startOnCreate\<close>
    its loop begins, which the model records as the state Running of the task.

  A Running scheduler has a manager, since \<open>Start\<close> refuses to run without one; for a
  state built otherwise the call returns \<open>MetricManagerNotSet\<close>.
\<close>

definition CreateTask ::
  "('wf, 'p) environment \<Rightarrow> schedule \<Rightarrow> 'wf \<Rightarrow> bool \<Rightarrow> task_option list \<Rightarrow> ('wf, 'p) scheduler \<Rightarrow>
   ('p task option \<times> sched_error list) \<times> ('wf, 'p) scheduler" where
  "CreateTask env sch wfMap startOnCreate opts s =
     (if state s \<noteq> schedulerRunning then ((None, [ErrSchedulerNotStarted]), s)
      else
        (case Validate sch of
           Some e \<Rightarrow> ((None, [e]), s)
         | None \<Rightarrow>
             (case metricManager s of
                None \<Rightarrow> ((None, [ErrMetricManagerNotSet]), s)
              | Some mm \<Rightarrow>
                  (let errs = validateNamespaces env wfMap @ ValidateDeps mm wfMap
                   in if errs \<noteq> [] then ((None, errs), s)
                      else
                        (case compile env mm wfMap of
                           Inl e \<Rightarrow> ((None, errs @ [e]), s)
                         | Inr p \<Rightarrow>
                             (let t0 = newTask env (nextID s) sch p opts;
                                  t = (if startOnCreate then t0\<lparr>task_state := taskRunning\<rparr>
                                       else t0);
                                  s1 = s\<lparr>nextID := Suc (nextID s)\<rparr>;
                                  (err, ts) = add t (tasks s1)
                              in case err of
                                   Some e \<Rightarrow> ((None, [e]), s1)
                                 | None \<Rightarrow> ((Some t, []), s1\<lparr>tasks := ts\<rparr>)))))))"

text \<open>
  The management calls of section 4.1 that change the scheduler, and a run of them in order.
  A run returns the scheduler it ends in and the tasks that \<open>CreateTask\<close> returned on the
  way, oldest first.
\<close>

datatype 'wf call =
    CallSetMetricManager "'wf metric_manager"
  | CallStart
  | CallStop
  | CallCreateTask schedule 'wf bool "task_option list"

fun run ::
  "('wf, 'p) environment \<Rightarrow> 'wf call list \<Rightarrow> ('wf, 'p) scheduler \<times> 'p task list \<Rightarrow>
   ('wf, 'p) scheduler \<times> 'p task list" where
  "run env [] (s, created) = (s, created)"
| "run env (CallSetMetricManager mm # cs) (s, created) = run env cs (SetMetricManager mm s, created)"
| "run env (CallStart # cs) (s, created) = run env cs (snd (Start s), created)"
| "run env (CallStop # cs) (s, created) = run env cs (Stop s, created)"
| "run env (CallCreateTask sch wfMap startOnCreate opts # cs) (s, created) =
     (case CreateTask env sch wfMap startOnCreate opts s of
        ((Some t, errs), s') \<Rightarrow> run env cs (s', created @ [t])
      | ((None, errs), s') \<Rightarrow> run env cs (s', created))"

section \<open>Example values\<close>

text \<open>
  A manager and a system on which the handlers can be evaluated. The state is the list of the
  names of the loaded plugins: \<open>Unload\<close> succeeds on a loaded plugin and fails on any
  other, \<open>Load\<close> fails on the empty file name. The system parses three values of
  \<open>Content-Type\<close>, reads a body that is not empty as one part, and never fails to write.
\<close>

definition example_manager :: "string list manager" where
  "example_manager =
     \<lparr>Unload = (\<lambda>pl w.
        if name pl \<in> set w then
          ((Some \<lparr>cp_Name = name pl, cp_Version = version pl, cp_TypeName = pluginType pl,
                   cp_Status = ''loaded'', cp_LoadedTimestamp = 0\<rparr>, None), remove1 (name pl) w)
        else ((None, Some (perror_New (Error ''plugin not found''))), w)),
      Load = (\<lambda>fname w.
        if fname = [] then ((None, Some (Error ''no such file'')), w)
        else ((Some \<lparr>cp_Name = fname, cp_Version = 1, cp_TypeName = ''collector'',
                       cp_Status = ''loaded'', cp_LoadedTimestamp = 0\<rparr>, None), w @ [fname])),
      GetAutodiscoverPaths = (\<lambda>w. [])\<rparr>"

definition example_system :: "string list system" where
  "example_system =
     \<lparr>ParseMediaType = (\<lambda>v.
        if v = ''application/json'' then (''application/json'', [], None)
        else if v = ''multipart/form-data; boundary=x'' then
          (''multipart/form-data'', [(''boundary'', ''x'')], None)
        else ([], [], Some (Error ''mime: no media type''))),
      NewReader = (\<lambda>b boundary.
        if b = [] then []
        else [Inr \<lparr>FileName = ''dummy'', ReadAll = Inr b,
                    gzip_NewReader = Inl (Error ''gzip: invalid header'')\<rparr>]),
      Create = (\<lambda>n w. (Inr n, w)),
      TempFile = (\<lambda>d n w. (Inr (''/tmp/'' @ n), w)),
      Write = (\<lambda>f b w. (None, w)),
      Chmod = (\<lambda>f m w. (None, w)),
      Close = (\<lambda>f w. w),
      Join = (\<lambda>d n. d @ ''/'' @ n)\<rparr>"

text \<open>
  An environment, a Metric Manager and a scheduler on which \<open>CreateTask\<close> can be
  evaluated: the default deadline is 5 seconds here, one workflow map has an invalid namespace,
  every other one compiles to itself, and the manager reports no error. The scheduler has the
  manager installed and is started. The calls follow the test: a task asked for before the
  start, one with an interval of 0, one with the invalid namespace, and two that succeed, the
  second started on creation. The task is the one the test creates with a deadline of 6 seconds.
\<close>

definition example_environment :: "(string, string) environment" where
  "example_environment =
     \<lparr>DefaultDeadlineDuration = 5000000000,
      validateNamespaces = (\<lambda>wf. if wf = ''****/&&&'' then [ErrMessage ''invalid namespace''] else []),
      compile = (\<lambda>mm wf. Inr wf)\<rparr>"

definition example_metric_manager :: "string metric_manager" where
  "example_metric_manager = \<lparr>ValidateDeps = (\<lambda>wf. [])\<rparr>"

definition example_scheduler :: "(string, string) scheduler" where
  "example_scheduler = snd (Start (SetMetricManager example_metric_manager New))"

definition example_calls :: "string call list" where
  "example_calls =
     [CallCreateTask (SimpleSchedule 1000000000) ''wf'' False [],
      CallSetMetricManager example_metric_manager,
      CallStart,
      CallCreateTask (SimpleSchedule 1000000000) ''wf'' False [],
      CallCreateTask (SimpleSchedule 0) ''wf'' False [],
      CallCreateTask (SimpleSchedule 1000000000) ''****/&&&'' False [],
      CallCreateTask (SimpleSchedule 5000000000) ''wf'' True []]"

definition example_task :: "string task" where
  "example_task =
     \<lparr>task_id = 0, workflow = ''wf'', task_schedule = SimpleSchedule 6000000000,
      deadlineDuration = 6000000000, task_state = taskStopped\<rparr>"

section \<open>Properties of strconv.ParseInt\<close>

text \<open>
  The value \<open>ParseInt\<close> returns always fits the signed 64-bit \<open>int\<close>, so the
  conversion \<open>int(plVersion)\<close> of \<open>unloadPlugin\<close> keeps it.
\<close>

lemma ParseUint_loop_bound:
  "0 \<le> n \<Longrightarrow> n \<le> maxVal \<Longrightarrow> ParseUint_loop maxVal n s = (v, e) \<Longrightarrow> 0 \<le> v \<and> v \<le> maxVal"
proof (induction s arbitrary: n)
  case Nil
  then show ?case by simp
next
  case (Cons c cs)
  show ?case
  proof (cases "\<not> isDigit c \<or> n \<ge> maxUint64 div 10 + 1 \<or>
      (n * 10 + (of_char c - 48)) mod 2 ^ 64 < n * 10 \<or> (n * 10 + (of_char c - 48)) mod 2 ^ 64 > maxVal")
    case True
    with Cons.prems show ?thesis by (auto simp: Let_def split: if_splits)
  next
    case False
    then have "ParseUint_loop maxVal n (c # cs) =
        ParseUint_loop maxVal ((n * 10 + (of_char c - 48)) mod 2 ^ 64) cs"
      by (simp add: Let_def)
    moreover have "0 \<le> (n * 10 + (of_char c - 48)) mod (2 ^ 64 :: int)" by simp
    moreover have "(n * 10 + (of_char c - 48)) mod 2 ^ 64 \<le> maxVal" using False by simp
    ultimately show ?thesis using Cons.IH Cons.prems(3) by metis
  qed
qed

lemma ParseInt_range: "ParseInt s = (v, e) \<Longrightarrow> - (2 ^ 63) \<le> v \<and> v < 2 ^ 63"
proof (cases "s = []")
  case True
  assume "ParseInt s = (v, e)"
  with True show ?thesis by (simp add: ParseInt_def)
next
  case False
  assume a: "ParseInt s = (v, e)"
  obtain un err where u: "ParseUint (if hd s = CHR ''+'' \<or> hd s = CHR ''-'' then tl s else s) = (un, err)"
    by (metis prod.exhaust)
  have "0 \<le> un"
    using u ParseUint_loop_bound[of 0 "2 ^ IntSize - 1"]
    by (auto simp: ParseUint_def IntSize_def split: if_splits)
  with a u False show ?thesis
    by (auto simp: ParseInt_def Let_def IntSize_def split: if_splits)
qed

text \<open>
  What \<open>ParseInt\<close> accepts. On digits only, the loop of \<open>ParseUint\<close> returns the
  number the digits denote, or the range error once that number passes \<open>2^64 - 1\<close>; a
  byte that is no digit makes it fail.
\<close>

lemma decimal_Nil: "decimal n [] = n"
  by (simp add: decimal_def)

lemma decimal_Cons: "decimal n (c # cs) = decimal (n * 10 + (of_char c - 48)) cs"
  by (simp add: decimal_def)

lemma decimal_mono: "0 \<le> n \<Longrightarrow> \<forall>c \<in> set ds. isDigit c \<Longrightarrow> n \<le> decimal n ds"
proof (induction ds arbitrary: n)
  case Nil
  then show ?case by (simp add: decimal_Nil)
next
  case (Cons c cs)
  have d: "0 \<le> (of_char c :: int) - 48" using Cons.prems(2) by (simp add: isDigit_def)
  have "n \<le> n * 10 + (of_char c - 48)" using Cons.prems(1) d by simp
  moreover have "n * 10 + (of_char c - 48) \<le> decimal (n * 10 + (of_char c - 48)) cs"
    using Cons.IH[of "n * 10 + (of_char c - 48)"] Cons.prems d by simp
  ultimately show ?case by (simp add: decimal_Cons)
qed

lemma ParseUint_loop_digits:
  assumes "\<forall>c \<in> set ds. isDigit c" and "0 \<le> n" and "n \<le> 2 ^ 64 - 1"
  shows "ParseUint_loop (2 ^ 64 - 1) n ds =
           (if decimal n ds \<le> 2 ^ 64 - 1 then (decimal n ds, None) else (2 ^ 64 - 1, Some ErrRange))"
  using assms
proof (induction ds arbitrary: n)
  case Nil
  then show ?case by (simp add: decimal_Nil)
next
  case (Cons c cs)
  have dg: "isDigit c" and rest: "\<forall>c \<in> set cs. isDigit c" using Cons.prems(1) by simp_all
  have d: "0 \<le> (of_char c :: int) - 48" "(of_char c :: int) - 48 \<le> 9"
    using dg by (simp_all add: isDigit_def)
  let ?m = "n * 10 + (of_char c - 48)"
  have m0: "0 \<le> ?m" using Cons.prems(2) d by simp
  have mono: "?m \<le> decimal ?m cs" using decimal_mono[OF m0 rest] .
  show ?case
  proof (cases "n \<ge> maxUint64 div 10 + 1")
    case True
    then have "?m > 2 ^ 64 - 1" using d by (simp add: maxUint64_def)
    with mono have "\<not> decimal ?m cs \<le> 2 ^ 64 - 1" by simp
    with True dg show ?thesis by (simp add: decimal_Cons)
  next
    case False
    show ?thesis
    proof (cases "?m \<le> 2 ^ 64 - 1")
      case True
      then have md: "?m mod 2 ^ 64 = ?m" using m0 by simp
      have "ParseUint_loop (2 ^ 64 - 1) n (c # cs) = ParseUint_loop (2 ^ 64 - 1) ?m cs"
        using dg False True md d by (simp add: Let_def)
      then show ?thesis using Cons.IH[OF rest m0 True] by (simp add: decimal_Cons)
    next
      case big: False
      have "?m < 2 * 2 ^ 64" using False d Cons.prems by (simp add: maxUint64_def)
      then have "?m mod 2 ^ 64 = ?m - 2 ^ 64"
        using big by (intro int_mod_pos_eq[where q = 1]) simp_all
      then have "?m mod 2 ^ 64 < n * 10" using d by simp
      then have "ParseUint_loop (2 ^ 64 - 1) n (c # cs) = (2 ^ 64 - 1, Some ErrRange)"
        using dg False by (simp add: Let_def)
      moreover have "\<not> decimal ?m cs \<le> 2 ^ 64 - 1" using mono big by simp
      ultimately show ?thesis by (simp add: decimal_Cons)
    qed
  qed
qed

lemma ParseUint_loop_nondigit:
  "\<not> (\<forall>c \<in> set ds. isDigit c) \<Longrightarrow> snd (ParseUint_loop maxVal n ds) \<noteq> None"
  by (induction ds arbitrary: n) (auto simp: Let_def)


lemma ParseUint_loop_range:
  "ParseUint_loop maxVal n ds = (v, Some ErrRange) \<Longrightarrow> v = maxVal"
  by (induction ds arbitrary: n) (auto simp: Let_def split: if_splits)

text \<open>
  \<open>ParseInt\<close> returns no error exactly for an optional sign followed by at least one
  decimal digit and nothing else, denoting a number of the signed 64-bit range; it then returns
  that number.
\<close>

lemma ParseInt_succeeds_iff:
  fixes s :: string
  defines "ds \<equiv> (if hd s = CHR ''+'' \<or> hd s = CHR ''-'' then tl s else s)"
  shows "snd (ParseInt s) = None \<longleftrightarrow>
           s \<noteq> [] \<and> ds \<noteq> [] \<and> (\<forall>c \<in> set ds. isDigit c) \<and>
           (if hd s = CHR ''-'' then decimal 0 ds \<le> 2 ^ 63 else decimal 0 ds < 2 ^ 63)"
proof (cases "s = [] \<or> ds = []")
  case True
  then show ?thesis
    by (auto simp: ParseInt_def ParseUint_def ds_def Let_def)
next
  case False
  then have ne: "s \<noteq> []" "ds \<noteq> []" by simp_all
  obtain un err where u: "ParseUint ds = (un, err)" by (metis prod.exhaust)
  have pi: "ParseInt s =
      (if err = Some ErrSyntax then (0, err)
       else if hd s \<noteq> CHR ''-'' \<and> un \<ge> 2 ^ 63 then (2 ^ 63 - 1, Some ErrRange)
       else if hd s = CHR ''-'' \<and> un > 2 ^ 63 then (- (2 ^ 63), Some ErrRange)
       else (if hd s = CHR ''-'' then - un else un, None))"
    using ne u by (simp add: ParseInt_def Let_def IntSize_def ds_def)
  show ?thesis
  proof (cases "\<forall>c \<in> set ds. isDigit c")
    case True
    have "ParseUint ds =
        (if decimal 0 ds \<le> 2 ^ 64 - 1 then (decimal 0 ds, None) else (2 ^ 64 - 1, Some ErrRange))"
      using ne ParseUint_loop_digits[OF True, of 0] by (simp add: ParseUint_def IntSize_def)
    with u have "(decimal 0 ds \<le> 2 ^ 64 - 1 \<and> un = decimal 0 ds \<and> err = None) \<or>
                 (\<not> decimal 0 ds \<le> 2 ^ 64 - 1 \<and> un = 2 ^ 64 - 1 \<and> err = Some ErrRange)"
      by (auto split: if_splits)
    then show ?thesis using True ne pi by auto
  next
    case False
    then have "err \<noteq> None"
      using u ne ParseUint_loop_nondigit[of ds "2 ^ 64 - 1" 0]
      by (auto simp: ParseUint_def IntSize_def)
    then obtain e where e: "err = Some e" by auto
    show ?thesis
    proof (cases e)
      case ErrSyntax
      with e pi False show ?thesis by simp
    next
      case ErrRange
      then have "un = 2 ^ 64 - 1"
        using u e ne ParseUint_loop_range[of "2 ^ 64 - 1" 0 ds un]
        by (simp add: ParseUint_def IntSize_def)
      with e ErrRange pi False show ?thesis by simp
    qed
  qed
qed

lemma ParseInt_value:
  fixes s :: string
  defines "ds \<equiv> (if hd s = CHR ''+'' \<or> hd s = CHR ''-'' then tl s else s)"
  assumes "snd (ParseInt s) = None"
  shows "fst (ParseInt s) = (if hd s = CHR ''-'' then - decimal 0 ds else decimal 0 ds)"
proof -
  from assms(2) have ok: "s \<noteq> []" "ds \<noteq> []" "\<forall>c \<in> set ds. isDigit c"
    "decimal 0 ds \<le> 2 ^ 63"
    using ParseInt_succeeds_iff[of s] by (auto simp: ds_def split: if_splits)
  have "ParseUint ds = (decimal 0 ds, None)"
    using ok ParseUint_loop_digits[OF ok(3), of 0] by (simp add: ParseUint_def IntSize_def)
  then show ?thesis
    using ok assms(2) by (auto simp: ParseInt_def Let_def IntSize_def ds_def split: if_splits)
qed

section \<open>Properties of unloadPlugin\<close>

text \<open>
  Claim C9. \<open>unloadPlugin\<close> calls \<open>Unload\<close> of the Metric Manager exactly when the
  three path parameters are valid: the version parses as an integer, the name is not empty and
  the type is not empty; it then calls it once, with the plugin the parameters name. When a
  parameter is invalid it responds 400 and calls nothing: with "invalid version" when the version
  does not parse, else with "missing plugin name" when the name is empty, else with
  "missing plugin type". When \<open>Unload\<close> returns an error it responds 500 with that
  error; when \<open>Unload\<close> returns a plugin and no error it responds 200 with the name,
  version and type of the plugin returned. Every error response carries the three parameters as
  fields. The handler panics only when \<open>Unload\<close> returns neither a plugin nor an error.
\<close>

theorem unloadPlugin_contract:
  fixes mm :: "'w manager" and p :: params and w :: 'w
  defines "plName \<equiv> ByName p ''name''"
      and "plType \<equiv> ByName p ''type''"
      and "plVersion \<equiv> fst (ParseInt (ByName p ''version''))"
      and "iErr \<equiv> snd (ParseInt (ByName p ''version''))"
  defines "f \<equiv> [(''plugin-name'', FString plName), (''plugin-version'', FInt plVersion),
                   (''plugin-type'', FString plType)]"
      and "pl \<equiv> \<lparr>name = plName, version = plVersion, pluginType = plType\<rparr>"
      and "out \<equiv> unloadPlugin mm p w"
  shows "(calls out = (if iErr = None \<and> plName \<noteq> [] \<and> plType \<noteq> [] then [CallUnload pl] else []))
       \<and> (iErr \<noteq> None \<longrightarrow>
            responses out = [(400, FromPulseError \<lparr>pe_err = Error ''invalid version'', pe_fields = f\<rparr>)])
       \<and> (iErr = None \<and> plName = [] \<longrightarrow>
            responses out = [(400, FromPulseError \<lparr>pe_err = Error ''missing plugin name'', pe_fields = f\<rparr>)])
       \<and> (iErr = None \<and> plName \<noteq> [] \<and> plType = [] \<longrightarrow>
            responses out = [(400, FromPulseError \<lparr>pe_err = Error ''missing plugin type'', pe_fields = f\<rparr>)])
       \<and> (iErr = None \<and> plName \<noteq> [] \<and> plType \<noteq> [] \<longrightarrow>
            (\<forall>up e. fst (Unload mm pl w) = (up, Some e) \<longrightarrow>
               responses out = [(500, FromPulseError (e\<lparr>pe_fields := f\<rparr>))]) \<and>
            (\<forall>u. fst (Unload mm pl w) = (Some u, None) \<longrightarrow>
               responses out = [(200, PluginUnloaded (cp_Name u) (cp_Version u) (cp_TypeName u))]))
       \<and> (panicked out \<longleftrightarrow>
            iErr = None \<and> plName \<noteq> [] \<and> plType \<noteq> [] \<and> fst (Unload mm pl w) = (None, None))"
  unfolding out_def unloadPlugin_def pl_def f_def iErr_def plVersion_def plName_def plType_def
  by (auto simp: Let_def respond_def perror_New_def SetFields_def split: prod.splits option.splits)

theorem unloadPlugin_contract_witness:
  "responses (unloadPlugin example_manager
       [(''name'', ''dummy''), (''type'', ''collector''), (''version'', ''1'')] [''dummy''])
     = [(200, PluginUnloaded ''dummy'' 1 ''collector'')]
   \<and> calls (unloadPlugin example_manager
       [(''name'', ''dummy''), (''type'', ''collector''), (''version'', ''1'')] [''dummy''])
     = [CallUnload \<lparr>name = ''dummy'', version = 1, pluginType = ''collector''\<rparr>]
   \<and> responses (unloadPlugin example_manager
       [(''name'', ''ghost''), (''type'', ''collector''), (''version'', ''1'')] [''dummy''])
     = [(500, FromPulseError \<lparr>pe_err = Error ''plugin not found'', pe_fields =
          [(''plugin-name'', FString ''ghost''), (''plugin-version'', FInt 1),
           (''plugin-type'', FString ''collector'')]\<rparr>)]
   \<and> responses (unloadPlugin example_manager
       [(''name'', ''dummy''), (''type'', ''collector''), (''version'', ''one'')] [''dummy''])
     = [(400, FromPulseError \<lparr>pe_err = Error ''invalid version'', pe_fields =
          [(''plugin-name'', FString ''dummy''), (''plugin-version'', FInt 0),
           (''plugin-type'', FString ''collector'')]\<rparr>)]
   \<and> calls (unloadPlugin example_manager
       [(''name'', ''dummy''), (''type'', ''collector''), (''version'', ''one'')] [''dummy'']) = []
   \<and> responses (unloadPlugin example_manager
       [(''type'', ''collector''), (''version'', ''1'')] [''dummy''])
     = [(400, FromPulseError \<lparr>pe_err = Error ''missing plugin name'', pe_fields =
          [(''plugin-name'', FString []), (''plugin-version'', FInt 1),
           (''plugin-type'', FString ''collector'')]\<rparr>)]
   \<and> responses (unloadPlugin example_manager
       [(''name'', ''dummy''), (''version'', ''1'')] [''dummy''])
     = [(400, FromPulseError \<lparr>pe_err = Error ''missing plugin type'', pe_fields =
          [(''plugin-name'', FString ''dummy''), (''plugin-version'', FInt 1),
           (''plugin-type'', FString [])]\<rparr>)]"
proof -
  have one: "ParseInt ''1'' = (1, None)"
    by (simp add: ParseInt_def ParseUint_def isDigit_def IntSize_def maxUint64_def)
  have bad: "ParseInt ''one'' = (0, Some ErrSyntax)"
    by (simp add: ParseInt_def ParseUint_def isDigit_def IntSize_def maxUint64_def)
  show ?thesis
    using
      unloadPlugin_contract[of example_manager "[(''name'', ''dummy''), (''type'', ''collector''), (''version'', ''1'')]"
        "[''dummy'']"]
      unloadPlugin_contract[of example_manager "[(''name'', ''ghost''), (''type'', ''collector''), (''version'', ''1'')]"
        "[''dummy'']"]
      unloadPlugin_contract[of example_manager "[(''name'', ''dummy''), (''type'', ''collector''), (''version'', ''one'')]"
        "[''dummy'']"]
      unloadPlugin_contract[of example_manager "[(''type'', ''collector''), (''version'', ''1'')]"
        "[''dummy'']"]
      unloadPlugin_contract[of example_manager "[(''name'', ''dummy''), (''version'', ''1'')]"
        "[''dummy'']"]
    by (simp add: one bad example_manager_def perror_New_def)
qed

section \<open>Properties of loadPlugin\<close>

text \<open>
  The loop over the parts ends with one response, 201 or 500, unless it panics on a nil plugin
  that \<open>Load\<close> returned without an error.
\<close>

lemma loadParts_responses:
  "(panicked (loadParts os mm gz evs lp cs w) \<longrightarrow> responses (loadParts os mm gz evs lp cs w) = []) \<and>
   (\<not> panicked (loadParts os mm gz evs lp cs w) \<longrightarrow>
      (\<exists>b. responses (loadParts os mm gz evs lp cs w) = [(201, b)] \<or>
           responses (loadParts os mm gz evs lp cs w) = [(500, b)]))"
proof (induction evs arbitrary: lp cs w)
  case Nil
  then show ?case by (simp add: respond_def)
next
  case (Cons ev evs)
  show ?case
  proof (cases ev)
    case (Inl err)
    then show ?thesis by (simp add: respond_def)
  next
    case (Inr p)
    show ?thesis
    proof (cases "readPart gz p")
      case (Inl err)
      with Inr show ?thesis by (simp add: respond_def)
    next
      case b: (Inr b)
      obtain fname werr w1 where
        wp: "writePlugin os (GetAutodiscoverPaths mm w) (FileName p) b w = ((fname, werr), w1)"
        by (metis prod.exhaust)
      obtain pl err w2 where ld: "Load mm fname w1 = ((pl, err), w2)"
        by (metis prod.exhaust)
      show ?thesis
      proof (cases err)
        case (Some e)
        with Inr b wp ld show ?thesis by (simp add: respond_def)
      next
        case None
        show ?thesis
        proof (cases pl)
          case pn: None
          with None Inr b wp ld show ?thesis by simp
        next
          case (Some c)
          have "loadParts os mm gz (ev # evs) lp cs w =
                loadParts os mm gz evs (lp @ [catalogedPluginToLoaded c]) (cs @ [CallLoad fname]) w2"
            using None Some Inr b wp ld by simp
          then show ?thesis
            using Cons.IH[of "lp @ [catalogedPluginToLoaded c]" "cs @ [CallLoad fname]" w2] by simp
        qed
      qed
    qed
  qed
qed

text \<open>
  Claim C10. When the header \<open>Content-Type\<close> of the request does not parse,
  \<open>loadPlugin\<close> responds 500 with the error of the parser. When it parses to a media type
  that does not start with "multipart/", the handler returns without a single call of
  \<open>respond\<close>: it writes no status and no body, calls nothing of the manager and leaves the
  state as it was. When it parses to a multipart type the handler writes one response, 201 or
  500, unless it panics.
\<close>

theorem loadPlugin_response:
  fixes os :: "'w system" and mm :: "'w manager" and r :: request and w :: 'w
  defines "parsed \<equiv> ParseMediaType os (Header_Get (Header r) ''Content-Type'')"
  defines "mediaType \<equiv> fst parsed"
      and "err \<equiv> snd (snd parsed)"
      and "out \<equiv> loadPlugin os mm r w"
  shows "(\<forall>e. err = Some e \<longrightarrow>
            responses out = [(500, FromError e)] \<and> calls out = [] \<and> \<not> panicked out)
       \<and> (err = None \<and> \<not> HasPrefix mediaType ''multipart/'' \<longrightarrow>
            responses out = [] \<and> calls out = [] \<and> world out = w \<and> \<not> panicked out)
       \<and> (err = None \<and> HasPrefix mediaType ''multipart/'' \<and> \<not> panicked out \<longrightarrow>
            (\<exists>b. responses out = [(201, b)] \<or> responses out = [(500, b)]))"
proof -
  obtain mt ps e where p: "parsed = (mt, ps, e)" by (cases parsed) auto
  show ?thesis
    using p loadParts_responses[of os mm "Header_Get (Header r) ''Plugin-Compression'' = ''gzip''"
        "NewReader os (Body r) (index_map ps ''boundary'')" "[]" "[]" w]
    unfolding out_def err_def mediaType_def loadPlugin_def parsed_def
    by (auto simp: respond_def split: option.splits)
qed

theorem loadPlugin_response_witness:
  "responses (loadPlugin example_system example_manager
       \<lparr>Header = [(''Content-Type'', [''application/json''])], Body = ''{}''\<rparr> []) = []
   \<and> responses (loadPlugin example_system example_manager
       \<lparr>Header = [], Body = ''{}''\<rparr> []) = [(500, FromError (Error ''mime: no media type''))]
   \<and> responses (loadPlugin example_system example_manager
       \<lparr>Header = [(''Content-Type'', [''multipart/form-data; boundary=x''])], Body = ''ELF''\<rparr> [])
      = [(201, PluginsLoaded [\<lparr>lp_Name = ''/tmp/dummy'', lp_Version = 1, lp_Type = ''collector'',
            lp_Status = ''loaded'', lp_LoadedTimestamp = 0\<rparr>])]"
  using loadPlugin_response[of example_system
      "\<lparr>Header = [(''Content-Type'', [''application/json''])], Body = ''{}''\<rparr>" example_manager "[]"]
    loadPlugin_response[of example_system "\<lparr>Header = [], Body = ''{}''\<rparr>" example_manager "[]"]
    loadPlugin_response[of example_system
      "\<lparr>Header = [(''Content-Type'', [''multipart/form-data; boundary=x''])], Body = ''ELF''\<rparr>"
      example_manager "[]"]
  by (simp add: example_system_def example_manager_def Header_Get_def HasPrefix_def loadPlugin_def
      index_map_def readPart_def writePlugin_def respond_def catalogedPluginToLoaded_def)

section \<open>Properties of the task options\<close>

text \<open>
  Claim C6. A task that \<open>CreateTask\<close> returns for an empty list of options has the default
  deadline duration. For every task and every deadline \<open>d\<close>, applying the option
  \<open>TaskDeadlineDuration d\<close> sets the deadline of the task to \<open>d\<close> and returns the
  option that carries the prior deadline; applying the returned option gives back the task as it
  was, so its deadline is exactly the previous one.
\<close>

theorem deadline_option_reversible:
  fixes env :: "('wf, 'p) environment" and t1 :: "'q task"
  shows "(CreateTask env sch wfMap startOnCreate [] s = ((Some t, errs), s') \<longrightarrow>
            deadlineDuration t = DefaultDeadlineDuration env)
       \<and> (Option (TaskDeadlineDuration d) t1 = (prev, t2) \<longrightarrow>
            deadlineDuration t2 = d \<and> prev = TaskDeadlineDuration (deadlineDuration t1) \<and>
            snd (Option prev t2) = t1)"
  by (auto simp: CreateTask_def Let_def add_def newTask_def
      split: if_splits option.splits sum.splits prod.splits)

theorem deadline_option_reversible_witness:
  "CreateTask example_environment (SimpleSchedule 5000000000) ''wf'' False [] example_scheduler =
     ((Some \<lparr>task_id = 0, workflow = ''wf'', task_schedule = SimpleSchedule 5000000000,
             deadlineDuration = 5000000000, task_state = taskStopped\<rparr>, []),
      example_scheduler\<lparr>tasks := [0 \<mapsto> \<lparr>task_id = 0, workflow = ''wf'',
             task_schedule = SimpleSchedule 5000000000, deadlineDuration = 5000000000,
             task_state = taskStopped\<rparr>], nextID := 1\<rparr>)
   \<and> DefaultDeadlineDuration example_environment = 5000000000
   \<and> fst (fst (CreateTask example_environment (SimpleSchedule 6000000000) ''wf'' False
        [TaskDeadlineDuration 6000000000] example_scheduler)) = Some example_task
   \<and> Option (TaskDeadlineDuration 1000000000) example_task =
       (TaskDeadlineDuration 6000000000, example_task\<lparr>deadlineDuration := 1000000000\<rparr>)
   \<and> snd (Option (TaskDeadlineDuration 6000000000)
        (example_task\<lparr>deadlineDuration := 1000000000\<rparr>)) = example_task"
proof -
  let ?t = "\<lparr>task_id = 0, workflow = ''wf'', task_schedule = SimpleSchedule 5000000000,
             deadlineDuration = 5000000000, task_state = taskStopped\<rparr>"
  have c: "CreateTask example_environment (SimpleSchedule 5000000000) ''wf'' False []
        example_scheduler =
      ((Some ?t, []), example_scheduler\<lparr>tasks := [0 \<mapsto> ?t], nextID := 1\<rparr>)"
    by (simp add: example_environment_def example_metric_manager_def example_scheduler_def New_def
        SetMetricManager_def Start_def CreateTask_def newTask_def add_def Let_def)
  have c6: "fst (fst (CreateTask example_environment (SimpleSchedule 6000000000) ''wf'' False
        [TaskDeadlineDuration 6000000000] example_scheduler)) = Some example_task"
    by (simp add: example_environment_def example_metric_manager_def example_scheduler_def New_def
        SetMetricManager_def Start_def CreateTask_def newTask_def add_def Let_def example_task_def)
  have o: "Option (TaskDeadlineDuration 1000000000) example_task =
       (TaskDeadlineDuration 6000000000, example_task\<lparr>deadlineDuration := 1000000000\<rparr>)"
    by (simp add: example_task_def)
  note u = deadline_option_reversible[where env = example_environment
      and sch = "SimpleSchedule 5000000000" and wfMap = "''wf''" and startOnCreate = False
      and s = example_scheduler and t = ?t and errs = "[]"
      and s' = "example_scheduler\<lparr>tasks := [0 \<mapsto> ?t], nextID := 1\<rparr>"
      and d = 1000000000 and ?t1.0 = example_task and prev = "TaskDeadlineDuration 6000000000"
      and ?t2.0 = "example_task\<lparr>deadlineDuration := 1000000000\<rparr>"]
  from u c have "deadlineDuration ?t = DefaultDeadlineDuration example_environment"
    by blast
  then have d: "DefaultDeadlineDuration example_environment = 5000000000"
    by simp
  from u o have "snd (Option (TaskDeadlineDuration 6000000000)
        (example_task\<lparr>deadlineDuration := 1000000000\<rparr>)) = example_task"
    by blast
  with c d c6 o show ?thesis by blast
qed

section \<open>Properties of the task registry\<close>

text \<open>
  An option changes no ID, so the task that step 7 constructs has the ID it was given.
\<close>

lemma task_id_Option: "task_id (snd (Option opt t)) = task_id t"
  by (cases opt) simp

lemma task_id_applyOptions: "task_id (applyOptions opts t) = task_id t"
  by (induction opts arbitrary: t) (simp_all add: task_id_Option)

lemma task_id_newTask: "task_id (newTask env i sch p opts) = i"
  by (simp add: newTask_def task_id_applyOptions)


text \<open>
  A call of \<open>CreateTask\<close> either fails, with errors, no task and the registry as it was,
  or succeeds, with no error and a task registered under the next ID, which was free.
\<close>

lemma CreateTask_cases:
  assumes "CreateTask env sch wfMap startOnCreate opts s = ((r, errs), s')"
  shows "(r = None \<and> errs \<noteq> [] \<and> tasks s' = tasks s \<and> (nextID s' = nextID s \<or> nextID s' = Suc (nextID s))
           \<and> state s' = state s \<and> metricManager s' = metricManager s) \<or>
         (\<exists>t. r = Some t \<and> errs = [] \<and> task_id t = nextID s \<and> tasks s (nextID s) = None \<and>
              tasks s' = (tasks s)(nextID s \<mapsto> t) \<and> nextID s' = Suc (nextID s)
              \<and> state s' = state s \<and> metricManager s' = metricManager s)"
  using assms
  by (auto simp: CreateTask_def Let_def add_def task_id_newTask
      split: if_splits option.splits sum.splits prod.splits)


text \<open>
  The invariant of a run: every registered ID is below \<open>nextID\<close>, every task created so
  far is registered under its own ID, and the IDs created so far are distinct.
\<close>

lemma run_invariant:
  assumes "\<forall>i. tasks s i \<noteq> None \<longrightarrow> i < nextID s"
      and "\<forall>t \<in> set created. tasks s (task_id t) = Some t"
      and "distinct (map task_id created)"
      and "run env cs (s, created) = (s', created')"
  shows "(\<forall>i. tasks s' i \<noteq> None \<longrightarrow> i < nextID s') \<and>
         (\<forall>t \<in> set created'. tasks s' (task_id t) = Some t) \<and>
         distinct (map task_id created')"
  using assms
proof (induction cs arbitrary: s created)
  case Nil
  then show ?case by simp
next
  case (Cons c cs)
  show ?case
  proof (cases c)
    case (CallSetMetricManager mm)
    with Cons.prems show ?thesis
      using Cons.IH[of "SetMetricManager mm s" created] by (simp add: SetMetricManager_def)
  next
    case CallStart
    with Cons.prems show ?thesis
      using Cons.IH[of "snd (Start s)" created] by (simp add: Start_def split: option.splits)
  next
    case CallStop
    with Cons.prems show ?thesis
      using Cons.IH[of "Stop s" created] by (simp add: Stop_def)
  next
    case (CallCreateTask sch wfMap startOnCreate opts)
    obtain r errs s1 where ct: "CreateTask env sch wfMap startOnCreate opts s = ((r, errs), s1)"
      by (metis prod.exhaust)
    from CreateTask_cases[OF ct] show ?thesis
    proof
      assume a: "r = None \<and> errs \<noteq> [] \<and> tasks s1 = tasks s \<and>
        (nextID s1 = nextID s \<or> nextID s1 = Suc (nextID s)) \<and> state s1 = state s \<and>
        metricManager s1 = metricManager s"
      then have r: "run env (c # cs) (s, created) = run env cs (s1, created)"
        using ct CallCreateTask by simp
      have "\<forall>i. tasks s1 i \<noteq> None \<longrightarrow> i < nextID s1"
        using a Cons.prems(1) by (auto simp: less_Suc_eq)
      moreover have "\<forall>t \<in> set created. tasks s1 (task_id t) = Some t"
        using a Cons.prems(2) by simp
      ultimately show ?thesis
        using Cons.IH[of s1 created] Cons.prems(3,4) r by simp
    next
      assume "\<exists>t. r = Some t \<and> errs = [] \<and> task_id t = nextID s \<and> tasks s (nextID s) = None \<and>
        tasks s1 = (tasks s)(nextID s \<mapsto> t) \<and> nextID s1 = Suc (nextID s) \<and>
        state s1 = state s \<and> metricManager s1 = metricManager s"
      then obtain t where a: "r = Some t" "task_id t = nextID s" "tasks s (nextID s) = None"
        "tasks s1 = (tasks s)(nextID s \<mapsto> t)" "nextID s1 = Suc (nextID s)" by blast
      have r: "run env (c # cs) (s, created) = run env cs (s1, created @ [t])"
        using ct CallCreateTask a(1) by simp
      have fresh: "\<forall>u \<in> set created. task_id u \<noteq> nextID s"
        using Cons.prems(2) a(3) by auto
      have "\<forall>i. tasks s1 i \<noteq> None \<longrightarrow> i < nextID s1"
        using a Cons.prems(1) by (auto simp: less_Suc_eq)
      moreover have "\<forall>u \<in> set (created @ [t]). tasks s1 (task_id u) = Some u"
        using a Cons.prems(2) fresh by auto
      moreover have "distinct (map task_id (created @ [t]))"
        using Cons.prems(3) fresh a(2) by auto
      ultimately show ?thesis
        using Cons.IH[of s1 "created @ [t]"] Cons.prems(4) r by simp
    qed
  qed
qed

text \<open>
  Claim C8. In every run of management calls on a new scheduler, the tasks that
  \<open>CreateTask\<close> returned have pairwise distinct IDs, and the registry holds each of them
  under its ID. Adding a task whose ID is already present in a registry returns the error of the
  duplicate ID and the registry as it was: the entry is not overwritten.
\<close>

theorem task_ids_unique:
  fixes env :: "('wf, 'p) environment" and cs :: "'wf call list"
    and t :: "'p task" and ts :: "nat \<rightharpoonup> 'p task"
  defines "s \<equiv> fst (run env cs (New, []))"
      and "created \<equiv> snd (run env cs (New, []))"
  shows "distinct (map task_id created)
       \<and> (\<forall>u \<in> set created. GetTasks s (task_id u) = Some u)
       \<and> (ts (task_id t) \<noteq> None \<longrightarrow> add t ts = (Some ErrDuplicateTaskID, ts))"
proof -
  have "run env cs (New, []) = (s, created)" by (simp add: s_def created_def)
  from run_invariant[OF _ _ _ this] show ?thesis
    by (simp add: New_def GetTasks_def add_def)
qed

theorem task_ids_unique_witness:
  "snd (run example_environment example_calls (New, [])) =
     [\<lparr>task_id = 0, workflow = ''wf'', task_schedule = SimpleSchedule 1000000000,
       deadlineDuration = 5000000000, task_state = taskStopped\<rparr>,
      \<lparr>task_id = 1, workflow = ''wf'', task_schedule = SimpleSchedule 5000000000,
       deadlineDuration = 5000000000, task_state = taskRunning\<rparr>]
   \<and> distinct (map task_id (snd (run example_environment example_calls (New, []))))
   \<and> add \<lparr>task_id = 1, workflow = ''other'', task_schedule = SimpleSchedule 1,
          deadlineDuration = 1, task_state = taskStopped\<rparr>
        (GetTasks (fst (run example_environment example_calls (New, []))))
     = (Some ErrDuplicateTaskID, GetTasks (fst (run example_environment example_calls (New, []))))"
proof -
  let ?t0 = "\<lparr>task_id = 0, workflow = ''wf'', task_schedule = SimpleSchedule 1000000000,
       deadlineDuration = 5000000000, task_state = taskStopped\<rparr>"
  let ?t1 = "\<lparr>task_id = 1, workflow = ''wf'', task_schedule = SimpleSchedule 5000000000,
       deadlineDuration = 5000000000, task_state = taskRunning\<rparr>"
  let ?dup = "\<lparr>task_id = 1, workflow = ''other'', task_schedule = SimpleSchedule 1,
          deadlineDuration = 1, task_state = taskStopped\<rparr>"
  let ?ts = "GetTasks (fst (run example_environment example_calls (New, [])))"
  have r: "run example_environment example_calls (New, []) =
      (\<lparr>state = schedulerRunning, metricManager = Some example_metric_manager,
        tasks = [0 \<mapsto> ?t0, 1 \<mapsto> ?t1], nextID = 2\<rparr>, [?t0, ?t1])"
    by (simp add: example_calls_def example_environment_def example_metric_manager_def New_def
        SetMetricManager_def Start_def CreateTask_def newTask_def add_def Let_def)
  have created: "snd (run example_environment example_calls (New, [])) = [?t0, ?t1]"
    by (simp add: r)
  have present: "?ts (task_id ?dup) \<noteq> None"
    by (simp add: r GetTasks_def)
  note u = task_ids_unique[of example_environment example_calls ?ts ?dup]
  from u have "distinct (map task_id (snd (run example_environment example_calls (New, []))))"
    by (rule conjunct1)
  moreover from u present have "add ?dup ?ts = (Some ErrDuplicateTaskID, ?ts)"
    by blast
  ultimately show ?thesis
    using created by blast
qed

end
